theory Spec2Isabelle
  imports Main
begin

section \<open>Strings: splitting an image reference on the colon\<close>

text \<open>
  Go strings are byte sequences, a \<^typ>\<open>string\<close> here. \<open>Split s sep\<close> is
  \<^verbatim>\<open>strings.Split(s, sep)\<close> for a separator of one byte, the only way the plugin calls it
  (\<^verbatim>\<open>strings.Split(image, ":")\<close>): the pieces between the occurrences of the separator, one more
  piece than there are separators, so the empty string gives one empty piece.
\<close>

fun Split :: "string \<Rightarrow> char \<Rightarrow> string list" where
  "Split [] sep = [[]]"
| "Split (c # cs) sep =
     (if c = sep then [] # Split cs sep
      else (case Split cs sep of [] \<Rightarrow> [[c]] | part # parts \<Rightarrow> (c # part) # parts))"

text \<open>
  \<^verbatim>\<open>getImageTag\<close>: the second piece of the image when there is one, the empty string otherwise.
  The method does not log, so the receiver is left out.
\<close>

definition getImageTag :: "string \<Rightarrow> string" where
  "getImageTag img =
     (let parts = Split img (CHR '':'')
      in if length parts > 1 then parts ! 1 else [])"

section \<open>The data of the host\<close>

text \<open>
  The content of an unstructured item is a \<^verbatim>\<open>map[string]interface{}\<close>. A Go map is kept as an
  association list read with \<^const>\<open>map_of\<close>; the nil map is the empty list. The dynamic
  values are those a decoded JSON document holds (numbers are kept as integers: the plugin
  never inspects one).
\<close>

datatype iface =
    VNil
  | VBool bool
  | VInt int
  | VString string
  | VSlice "iface list"
  | VMap "(string \<times> iface) list"

type_synonym Object = "(string \<times> iface) list"

record Unstructured =
  Object :: Object

definition UnstructuredContent :: "Unstructured \<Rightarrow> Object" where
  "UnstructuredContent u = Object u"

text \<open>
  The comma-ok type assertions \<^verbatim>\<open>v.(map[string]interface{})\<close> and \<^verbatim>\<open>v.(string)\<close> on the
  result of a map lookup; a missing key gives the nil interface, which has neither type.
\<close>

fun assertMap :: "iface option \<Rightarrow> Object option" where
  "assertMap (Some (VMap m)) = Some m"
| "assertMap _ = None"

fun assertString :: "iface option \<Rightarrow> string option" where
  "assertString (Some (VString s)) = Some s"
| "assertString _ = None"

record RestoreItemActionExecuteInput =
  Item :: Unstructured

record RestoreItemActionExecuteOutput =
  UpdatedItem :: Unstructured

definition NewRestoreItemActionExecuteOutput :: "Unstructured \<Rightarrow> RestoreItemActionExecuteOutput" where
  "NewRestoreItemActionExecuteOutput item = \<lparr>UpdatedItem = item\<rparr>"

record ResourceSelector =
  IncludedNamespaces :: "string list"
  ExcludedNamespaces :: "string list"
  IncludedResources :: "string list"
  ExcludedResources :: "string list"
  LabelSelector :: string

text \<open>
  The typed objects \<^verbatim>\<open>apps.StatefulSet\<close> and \<^verbatim>\<open>apps.Deployment\<close>. The plugin reads and
  writes \<^verbatim>\<open>Spec.Template.Spec.Containers\<close> and, in a container, \<^verbatim>\<open>Image\<close>; every other field
  of a container is in \<open>ContainerRest\<close> (the name apart), every other field of the object
  (type and object metadata, replicas, the rest of the pod template, status) in \<open>Other\<close>.
\<close>

record 'c Container =
  Name :: string
  Image :: string
  ContainerRest :: 'c

record ('c, 'o) Workload =
  Containers :: "'c Container list"
  Other :: 'o

datatype ('c, 'o) Resource =
    StatefulSet "('c, 'o) Workload"
  | Deployment "('c, 'o) Workload"

fun goType :: "('c, 'o) Resource \<Rightarrow> string" where
  "goType (StatefulSet w) = ''StatefulSet''"
| "goType (Deployment w) = ''Deployment''"

fun workload :: "('c, 'o) Resource \<Rightarrow> ('c, 'o) Workload" where
  "workload (StatefulSet w) = w"
| "workload (Deployment w) = w"

text \<open>
  What the plugin takes from \<^verbatim>\<open>k8s.io/apimachinery\<close> is a parameter of the model:
  \<open>KindOf\<close> is \<^verbatim>\<open>item.GetObjectKind().GroupVersionKind().Kind\<close>, \<open>FromUnstructured\<close> and
  \<open>ToUnstructured\<close> are the two methods of \<^verbatim>\<open>runtime.DefaultUnstructuredConverter\<close> (the
  first fills the object it is given), and \<open>ZeroOther\<close> is the zero value of the fields in
  \<open>Other\<close>, so that \<^verbatim>\<open>&apps.StatefulSet{}\<close> can be written down. An error of the
  converter is kept as its message.
\<close>

record ('c, 'o) Library =
  KindOf :: "Unstructured \<Rightarrow> string"
  ZeroOther :: 'o
  FromUnstructured :: "Object \<Rightarrow> ('c, 'o) Resource \<Rightarrow> string + ('c, 'o) Resource"
  ToUnstructured :: "('c, 'o) Resource \<Rightarrow> string + Object"

section \<open>Errors and the logger\<close>

text \<open>
  \<open>UnsupportedKind k\<close> is \<^verbatim>\<open>errors.Errorf("unsupported kind %s", k)\<close>, \<open>WithStack e\<close> is
  \<^verbatim>\<open>errors.WithStack(err)\<close> for an error of the converter with message \<open>e\<close>, and \<open>Panic\<close> is a failed type
  assertion without comma-ok.
\<close>

datatype error =
    UnsupportedKind string
  | WithStack string
  | Panic

text \<open>
  The plugin's only field is its logger; the state of the plugin is what has been logged so
  far. An entry keeps the format string and the arguments of the call.
\<close>

datatype LogArg = ArgString string | ArgValue iface

datatype LogEntry = Info string "LogArg list" | Warn string

record RestorePluginV2 =
  log :: "LogEntry list"

definition Infof :: "RestorePluginV2 \<Rightarrow> string \<Rightarrow> LogArg list \<Rightarrow> RestorePluginV2" where
  "Infof p fmt args = p\<lparr>log := log p @ [Info fmt args]\<rparr>"

definition Warning :: "RestorePluginV2 \<Rightarrow> string \<Rightarrow> RestorePluginV2" where
  "Warning p msg = p\<lparr>log := log p @ [Warn msg]\<rparr>"

section \<open>The plugin\<close>

definition AppliesTo :: "error + ResourceSelector" where
  "AppliesTo =
     Inr \<lparr>IncludedNamespaces = [], ExcludedNamespaces = [],
          IncludedResources = [''statefulsets'', ''deployments''],
          ExcludedResources = [], LabelSelector = []\<rparr>"

text \<open>
  \<^verbatim>\<open>getImageAnnotation\<close>. The assertion on \<^verbatim>\<open>"metadata"\<close> has no comma-ok and panics when
  the key is missing or holds no map; the one on \<^verbatim>\<open>"annotations"\<close> has it and gives the nil
  map, where every lookup misses.
\<close>

definition getImageAnnotation ::
  "RestorePluginV2 \<Rightarrow> Unstructured \<Rightarrow> (error + string \<times> bool) \<times> RestorePluginV2" where
  "getImageAnnotation p item =
     (case assertMap (map_of (UnstructuredContent item) ''metadata'') of
        None \<Rightarrow> (Inl Panic, p)
      | Some metadata \<Rightarrow>
          (let annotations =
                 (case assertMap (map_of metadata ''annotations'') of
                    None \<Rightarrow> [] | Some a \<Rightarrow> a);
               val = map_of annotations ''eth-eks.velero/container-image''
           in if val = None then (Inr ([], False), p)
              else (case assertString val of
                      None \<Rightarrow>
                        (Inr ([], False), Warning p ''Image annotation value is not a string'')
                    | Some newImage \<Rightarrow> (Inr (newImage, True), p))))"

definition createResource ::
  "('c, 'o) Library \<Rightarrow> RestorePluginV2 \<Rightarrow> string \<Rightarrow>
     (error + ('c, 'o) Resource) \<times> RestorePluginV2" where
  "createResource lib p kind =
     (if kind = ''StatefulSet'' then
        (Inr (StatefulSet \<lparr>Containers = [], Other = ZeroOther lib\<rparr>),
         Infof p ''Creating StatefulSet resource'' [])
      else if kind = ''Deployment'' then
        (Inr (Deployment \<lparr>Containers = [], Other = ZeroOther lib\<rparr>),
         Infof p ''Creating Deployment resource'' [])
      else
        (Inl (UnsupportedKind kind), Infof p ''Unsupported kind: %s'' [ArgString kind]))"

text \<open>
  The loop of \<^verbatim>\<open>updateContainerImages\<close> over the containers, in order. The assignment
  \<^verbatim>\<open>newImage = newImage + ":" + tag\<close> is to the parameter, so the value carries over to the
  containers after the current one.
\<close>

fun updateLoop ::
  "RestorePluginV2 \<Rightarrow> string \<Rightarrow> 'c Container list \<Rightarrow> 'c Container list \<times> RestorePluginV2" where
  "updateLoop p newImage [] = ([], p)"
| "updateLoop p newImage (c # cs) =
     (let currentImage = Image c;
          tag = getImageTag currentImage;
          newImage' =
            (if tag \<noteq> [] then
               (if getImageTag newImage = [] then newImage @ '':'' @ tag else newImage)
             else newImage);
          p' = Infof p ''Updating container image from %s to %s''
                 [ArgString currentImage, ArgString newImage'];
          (cs', p'') = updateLoop p' newImage' cs
      in (c\<lparr>Image := newImage'\<rparr> # cs', p''))"

text \<open>
  \<^verbatim>\<open>updateContainerImages\<close> writes through the slice into the object it was given; the model
  returns the object. The type assertions of \<^verbatim>\<open>resource\<close> to \<^verbatim>\<open>*apps.StatefulSet\<close> and to
  \<^verbatim>\<open>*apps.Deployment\<close> panic on an object of the other type.
\<close>

definition updateContainerImages ::
  "RestorePluginV2 \<Rightarrow> ('c, 'o) Resource \<Rightarrow> string \<Rightarrow> string \<Rightarrow>
     (error + ('c, 'o) Resource) \<times> RestorePluginV2" where
  "updateContainerImages p resource newImage kind =
     (if kind = ''StatefulSet'' then
        (case resource of
           StatefulSet sts \<Rightarrow>
             (let (cs, p') = updateLoop p newImage (Containers sts)
              in (Inr (StatefulSet (sts\<lparr>Containers := cs\<rparr>)), p'))
         | Deployment _ \<Rightarrow> (Inl Panic, p))
      else if kind = ''Deployment'' then
        (case resource of
           Deployment deploy \<Rightarrow>
             (let (cs, p') = updateLoop p newImage (Containers deploy)
              in (Inr (Deployment (deploy\<lparr>Containers := cs\<rparr>)), p'))
         | StatefulSet _ \<Rightarrow> (Inl Panic, p))
      else (Inl (UnsupportedKind kind), p))"

definition createOutput ::
  "('c, 'o) Library \<Rightarrow> RestorePluginV2 \<Rightarrow> ('c, 'o) Resource \<Rightarrow>
     (error + RestoreItemActionExecuteOutput) \<times> RestorePluginV2" where
  "createOutput lib p resource =
     (case ToUnstructured lib resource of
        Inl err \<Rightarrow> (Inl (WithStack err), p)
      | Inr inputMap \<Rightarrow>
          (Inr (NewRestoreItemActionExecuteOutput \<lparr>Object = inputMap\<rparr>),
           Infof p ''Created output with resource: %v'' [ArgValue (VMap inputMap)]))"

text \<open>
  \<^verbatim>\<open>Execute\<close>. The input's item is an \<^verbatim>\<open>*unstructured.Unstructured\<close> by the type of the
  model. The result is the pair the Go method returns, as a sum (a nil output with the
  error, or the output with a nil error), and the plugin with what it logged.
\<close>

definition Execute ::
  "('c, 'o) Library \<Rightarrow> RestorePluginV2 \<Rightarrow> RestoreItemActionExecuteInput \<Rightarrow>
     (error + RestoreItemActionExecuteOutput) \<times> RestorePluginV2" where
  "Execute lib p input =
     (let item = Item input
      in case getImageAnnotation p item of
           (Inl err, p1) \<Rightarrow> (Inl err, p1)
         | (Inr (newImage, exists), p1) \<Rightarrow>
             if \<not> exists then (Inr (NewRestoreItemActionExecuteOutput (Item input)), p1)
             else
               (let kind = KindOf lib item
                in case createResource lib p1 kind of
                     (Inl err, p2) \<Rightarrow> (Inl err, p2)
                   | (Inr resource, p2) \<Rightarrow>
                       (case FromUnstructured lib (UnstructuredContent item) resource of
                          Inl err \<Rightarrow> (Inl (WithStack err), p2)
                        | Inr resource' \<Rightarrow>
                            (case updateContainerImages p2 resource' newImage kind of
                               (Inl err, p3) \<Rightarrow> (Inl err, p3)
                             | (Inr resource'', p3) \<Rightarrow> createOutput lib p3 resource''))))"

section \<open>Vocabulary of the statements\<close>

text \<open>
  The value under \<^verbatim>\<open>metadata.annotations["eth-eks.velero/container-image"]\<close> of an item, as
  data: \<open>None\<close> when the key, the annotations or the metadata are not there.
\<close>

definition imageAnnotation :: "Unstructured \<Rightarrow> iface option" where
  "imageAnnotation item =
     (case map_of (Object item) ''metadata'' of
        Some (VMap metadata) \<Rightarrow>
          (case map_of metadata ''annotations'' of
             Some (VMap annotations) \<Rightarrow> map_of annotations ''eth-eks.velero/container-image''
           | _ \<Rightarrow> None)
      | _ \<Rightarrow> None)"

definition hasMetadata :: "Unstructured \<Rightarrow> bool" where
  "hasMetadata item = (case map_of (Object item) ''metadata'' of Some (VMap _) \<Rightarrow> True | _ \<Rightarrow> False)"

text \<open>
  \<open>decodesTo lib item r\<close>: the item is of a kind the plugin has a typed object for, and the
  converter fills the empty object of that kind with the item's content, without an error,
  giving \<open>r\<close>.
\<close>

definition decodesTo :: "('c, 'o) Library \<Rightarrow> Unstructured \<Rightarrow> ('c, 'o) Resource \<Rightarrow> bool" where
  "decodesTo lib item r =
     ((KindOf lib item = ''StatefulSet'' \<and> goType r = ''StatefulSet'' \<and>
       FromUnstructured lib (Object item)
         (StatefulSet \<lparr>Containers = [], Other = ZeroOther lib\<rparr>) = Inr r) \<or>
      (KindOf lib item = ''Deployment'' \<and> goType r = ''Deployment'' \<and>
       FromUnstructured lib (Object item)
         (Deployment \<lparr>Containers = [], Other = ZeroOther lib\<rparr>) = Inr r))"

fun setContainers :: "('c, 'o) Resource \<Rightarrow> 'c Container list \<Rightarrow> ('c, 'o) Resource" where
  "setContainers (StatefulSet w) cs = StatefulSet (w\<lparr>Containers := cs\<rparr>)"
| "setContainers (Deployment w) cs = Deployment (w\<lparr>Containers := cs\<rparr>)"

definition containersOf :: "('c, 'o) Resource \<Rightarrow> 'c Container list" where
  "containersOf r = Containers (workload r)"

text \<open>The result of \<^verbatim>\<open>Execute\<close> when the typed object \<open>r\<close> is what it hands to \<^verbatim>\<open>createOutput\<close>.\<close>

definition outputOf ::
  "('c, 'o) Library \<Rightarrow> ('c, 'o) Resource \<Rightarrow> error + RestoreItemActionExecuteOutput" where
  "outputOf lib r = fst (createOutput lib \<lparr>log = []\<rparr> r)"

section \<open>An instance of the converter\<close>

text \<open>
  Modelled from the spec: the structural (de)serialization provided by the host, which is
  not part of the repository. The instance covers what the plugin touches: the kind, the
  metadata (kept as it is, in \<open>Other\<close>) and the name and image of the containers of the pod
  template. It serves to run \<^const>\<open>Execute\<close> on concrete items; the theorems hold for every
  converter.
\<close>

definition field :: "Object \<Rightarrow> string \<Rightarrow> Object" where
  "field m k = (case assertMap (map_of m k) of None \<Rightarrow> [] | Some x \<Rightarrow> x)"

definition stringField :: "Object \<Rightarrow> string \<Rightarrow> string" where
  "stringField m k = (case assertString (map_of m k) of None \<Rightarrow> [] | Some s \<Rightarrow> s)"

fun decodeContainer :: "iface \<Rightarrow> unit Container" where
  "decodeContainer (VMap m) =
     \<lparr>Name = stringField m ''name'', Image = stringField m ''image'', ContainerRest = ()\<rparr>"
| "decodeContainer _ = \<lparr>Name = [], Image = [], ContainerRest = ()\<rparr>"

definition encodeContainer :: "unit Container \<Rightarrow> iface" where
  "encodeContainer c = VMap [(''name'', VString (Name c)), (''image'', VString (Image c))]"

definition decodeWorkload :: "Object \<Rightarrow> (unit, Object) Workload" where
  "decodeWorkload obj =
     \<lparr>Containers =
        (case map_of (field (field (field obj ''spec'') ''template'') ''spec'') ''containers'' of
           Some (VSlice vs) \<Rightarrow> map decodeContainer vs
         | _ \<Rightarrow> []),
      Other = field obj ''metadata''\<rparr>"

definition hostFromUnstructured ::
  "Object \<Rightarrow> (unit, Object) Resource \<Rightarrow> string + (unit, Object) Resource" where
  "hostFromUnstructured obj target =
     (case target of
        StatefulSet _ \<Rightarrow> Inr (StatefulSet (decodeWorkload obj))
      | Deployment _ \<Rightarrow> Inr (Deployment (decodeWorkload obj)))"

definition hostToUnstructured :: "(unit, Object) Resource \<Rightarrow> string + Object" where
  "hostToUnstructured r =
     Inr [(''kind'', VString (goType r)),
          (''metadata'', VMap (Other (workload r))),
          (''spec'', VMap [(''template'', VMap [(''spec'', VMap
             [(''containers'', VSlice (map encodeContainer (Containers (workload r))))])])])]"

definition hostLib :: "(unit, Object) Library" where
  "hostLib =
     \<lparr>KindOf = (\<lambda>u. stringField (Object u) ''kind''),
      ZeroOther = [],
      FromUnstructured = hostFromUnstructured,
      ToUnstructured = hostToUnstructured\<rparr>"

text \<open>Concrete items: a workload of the given kind, annotations and containers.\<close>

definition mkItem :: "string \<Rightarrow> Object \<Rightarrow> (string \<times> string) list \<Rightarrow> Unstructured" where
  "mkItem kind annotations cs =
     \<lparr>Object =
        [(''kind'', VString kind),
         (''metadata'', VMap [(''annotations'', VMap annotations)]),
         (''spec'', VMap [(''template'', VMap [(''spec'', VMap
            [(''containers'',
              VSlice (map (\<lambda>(n, i). VMap [(''name'', VString n), (''image'', VString i)]) cs))])])])]\<rparr>"

definition p0 :: RestorePluginV2 where
  "p0 = \<lparr>log = []\<rparr>"

text \<open>The CronJob of the repository's test of \<^verbatim>\<open>Execute\<close>, as the unstructured item it builds.\<close>

definition cronJobItem :: Unstructured where
  "cronJobItem =
     \<lparr>Object =
        [(''kind'', VString ''CronJob''),
         (''metadata'', VMap
            [(''name'', VString ''test-cronjob''),
             (''namespace'', VString ''test-namespace''),
             (''annotations'', VMap
                [(''eth-eks.velero/container-image'', VString ''new-registry/app'')])]),
         (''spec'', VMap [(''jobTemplate'', VMap [(''spec'', VMap [(''template'', VMap
            [(''spec'', VMap
               [(''containers'',
                 VSlice [VMap [(''name'', VString ''app''),
                               (''image'', VString ''old-registry/app:v1.2.3'')]])])])])])])]\<rparr>"

lemmas eval_defs =
  Execute_def getImageAnnotation_def createResource_def updateContainerImages_def
  createOutput_def NewRestoreItemActionExecuteOutput_def UnstructuredContent_def
  hostLib_def hostFromUnstructured_def hostToUnstructured_def decodeWorkload_def
  encodeContainer_def field_def stringField_def mkItem_def p0_def Infof_def Warning_def
  getImageTag_def Let_def

section \<open>Facts about splitting\<close>

lemma Split_not_Nil: "Split s sep \<noteq> []"
  by (induction s) (auto split: list.splits)


lemma Split_no_sep: "sep \<notin> set s \<Longrightarrow> Split s sep = [s]"
  by (induction s) auto

lemma Split_append_sep: "Split (a @ sep # b) sep = Split a sep @ Split b sep"
  by (induction a) (auto split: list.splits simp: Split_not_Nil)







lemma Split_one_colon:
  assumes "count_list s sep = 1"
  shows "\<exists>a b. s = a @ sep # b \<and> Split s sep = [a, b]"
proof -
  from assms have "sep \<in> set s" by (metis count_list_0_iff zero_neq_one)
  then obtain a b where s: "s = a @ sep # b" and a: "sep \<notin> set a"
    by (auto dest: split_list_first)
  from assms s a have "count_list b sep = 0" by (simp add: count_list_0_iff)
  then have "sep \<notin> set b" by (simp add: count_list_0_iff)
  with a s show ?thesis by (auto simp: Split_append_sep Split_no_sep)
qed

section \<open>Facts about the loop over the containers\<close>

lemma updateLoop_Cons:
  "fst (updateLoop p n (c # cs)) =
     (let n' = (if getImageTag (Image c) \<noteq> [] \<and> getImageTag n = []
                then n @ '':'' @ getImageTag (Image c) else n)
      in c\<lparr>Image := n'\<rparr> #
         fst (updateLoop (Infof p ''Updating container image from %s to %s''
                [ArgString (Image c), ArgString n']) n' cs))"
  by (simp add: Let_def case_prod_beta)

lemma updateLoop_plugin: "fst (updateLoop p n cs) = fst (updateLoop q n cs)"
proof (induction cs arbitrary: p q n)
  case Nil
  show ?case by simp
next
  case (Cons c cs)
  show ?case
    unfolding updateLoop_Cons Let_def
    by (rule arg_cong [where f = "Cons _"]) (rule Cons.IH)
qed

lemma updateLoop_length: "length (fst (updateLoop p n cs)) = length cs"
  by (induction cs arbitrary: p n) (simp_all add: updateLoop_Cons Let_def del: updateLoop.simps(2))

lemma updateLoop_Name: "map Name (fst (updateLoop p n cs)) = map Name cs"
  by (induction cs arbitrary: p n) (simp_all add: updateLoop_Cons Let_def del: updateLoop.simps(2))

lemma updateLoop_ContainerRest: "map ContainerRest (fst (updateLoop p n cs)) = map ContainerRest cs"
  by (induction cs arbitrary: p n) (simp_all add: updateLoop_Cons Let_def del: updateLoop.simps(2))

lemma updateLoop_only_images:
  "fst (updateLoop p n cs) =
     map2 (\<lambda>c i. c\<lparr>Image := i\<rparr>) cs (map Image (fst (updateLoop p n cs)))"
  by (induction cs arbitrary: p n) (simp_all add: updateLoop_Cons Let_def del: updateLoop.simps(2))

lemma updateLoop_tagged:
  "getImageTag n \<noteq> [] \<Longrightarrow> fst (updateLoop p n cs) = map (\<lambda>c. c\<lparr>Image := n\<rparr>) cs"
  by (induction cs arbitrary: p) (simp_all add: updateLoop_Cons Let_def del: updateLoop.simps(2))

lemma updateLoop_untagged:
  "\<forall>c \<in> set cs. getImageTag (Image c) = [] \<Longrightarrow>
     fst (updateLoop p n cs) = map (\<lambda>c. c\<lparr>Image := n\<rparr>) cs"
  by (induction cs arbitrary: p) (simp_all add: updateLoop_Cons Let_def del: updateLoop.simps(2))

lemma updateLoop_prefix:
  "c \<in> set (fst (updateLoop p n cs)) \<Longrightarrow> \<exists>s. Image c = n @ s"
proof (induction cs arbitrary: p n)
  case Nil
  then show ?case by simp
next
  case (Cons a cs)
  let ?n' = "if getImageTag (Image a) \<noteq> [] \<and> getImageTag n = []
             then n @ '':'' @ getImageTag (Image a) else n"
  from Cons.prems consider "c = a\<lparr>Image := ?n'\<rparr>"
    | q where "c \<in> set (fst (updateLoop q ?n' cs))"
    by (auto simp: updateLoop_Cons Let_def simp del: updateLoop.simps(2))
  then show ?case
  proof cases
    case 1
    then show ?thesis by auto
  next
    case 2
    from Cons.IH [OF 2] obtain s where "Image c = ?n' @ s" ..
    then show ?thesis by (cases "getImageTag (Image a) \<noteq> [] \<and> getImageTag n = []") auto
  qed
qed





section \<open>Facts about the methods\<close>

lemma getImageAnnotation_string:
  "imageAnnotation item = Some (VString n) \<Longrightarrow> getImageAnnotation p item = (Inr (n, True), p)"
  by (auto simp: imageAnnotation_def getImageAnnotation_def UnstructuredContent_def Let_def
           split: option.splits iface.splits)

lemma getImageAnnotation_absent:
  "hasMetadata item \<Longrightarrow> imageAnnotation item = None \<Longrightarrow>
     getImageAnnotation p item = (Inr ([], False), p)"
  by (auto simp: imageAnnotation_def hasMetadata_def getImageAnnotation_def
                 UnstructuredContent_def Let_def
           split: option.splits iface.splits)

lemma getImageAnnotation_not_string:
  "imageAnnotation item = Some v \<Longrightarrow> \<forall>s. v \<noteq> VString s \<Longrightarrow>
     getImageAnnotation p item =
       (Inr ([], False), Warning p ''Image annotation value is not a string'')"
  by (cases v)
     (auto simp: imageAnnotation_def getImageAnnotation_def UnstructuredContent_def Let_def
           split: option.splits iface.splits)

lemma fst_getImageAnnotation:
  "fst (getImageAnnotation p item) = fst (getImageAnnotation q item)"
  by (simp add: getImageAnnotation_def Let_def split: option.splits)

lemma fst_createResource: "fst (createResource lib p kind) = fst (createResource lib q kind)"
  by (simp add: createResource_def)

lemma fst_updateContainerImages:
  "fst (updateContainerImages p r n kind) = fst (updateContainerImages q r n kind)"
  by (simp add: updateContainerImages_def case_prod_beta updateLoop_plugin [of p n _ q]
           split: Resource.splits)

lemma fst_createOutput: "fst (createOutput lib p r) = outputOf lib r"
  by (simp add: createOutput_def outputOf_def split: sum.splits)

lemma updateContainerImages_typed:
  "goType r = kind \<Longrightarrow>
     fst (updateContainerImages p r n kind) =
       Inr (setContainers r (fst (updateLoop p n (containersOf r))))"
  by (cases r) (auto simp: updateContainerImages_def containersOf_def case_prod_beta)

lemma Execute_fst:
  fixes lib :: "('c, 'o) Library"
  shows "fst (Execute lib p input) =
     (case fst (getImageAnnotation p (Item input)) of
        Inl err \<Rightarrow> Inl err
      | Inr (newImage, exists) \<Rightarrow>
          if \<not> exists then Inr (NewRestoreItemActionExecuteOutput (Item input))
          else (case fst (createResource lib p (KindOf lib (Item input))) of
                  Inl err \<Rightarrow> Inl err
                | Inr resource \<Rightarrow>
                    (case FromUnstructured lib (UnstructuredContent (Item input)) resource of
                       Inl err \<Rightarrow> Inl (WithStack err)
                     | Inr resource' \<Rightarrow>
                         (case fst (updateContainerImages p resource' newImage
                                      (KindOf lib (Item input))) of
                            Inl err \<Rightarrow> Inl err
                          | Inr resource'' \<Rightarrow> outputOf lib resource''))))"
proof -
  obtain a p1
    where g: "getImageAnnotation p (Item input) = (a, p1)" by force
  show ?thesis
  proof (cases a)
    case (Inl err)
    with g show ?thesis by (simp add: Execute_def Let_def)
  next
    case (Inr x)
    obtain newImage exists where x: "x = (newImage, exists)" by force
    obtain b p2
      where c: "createResource lib p1 (KindOf lib (Item input)) = (b, p2)" by force
    have b: "fst (createResource lib p (KindOf lib (Item input))) = b"
      by (simp add: fst_createResource [of lib p _ p1] c)
    show ?thesis
    proof (cases b)
      case (Inl err)
      with g Inr x c b show ?thesis by (simp add: Execute_def Let_def)
    next
      case r0: (Inr resource)
      show ?thesis
      proof (cases "FromUnstructured lib (UnstructuredContent (Item input)) resource")
        case (Inl err)
        with g Inr x c b r0 show ?thesis by (simp add: Execute_def Let_def)
      next
        case r1: (Inr resource')
        obtain d p3 where
          u: "updateContainerImages p2 resource' newImage (KindOf lib (Item input)) = (d, p3)"
          by force
        have d: "fst (updateContainerImages p resource' newImage (KindOf lib (Item input))) = d"
          by (simp add: fst_updateContainerImages [of p _ _ _ p2] u)
        from g Inr x c b r0 r1 u d show ?thesis
          by (cases d) (simp_all add: Execute_def Let_def fst_createOutput)
      qed
    qed
  qed
qed

lemma Execute_plugin: "fst (Execute lib p input) = fst (Execute lib q input)"
  by (simp add: Execute_fst fst_getImageAnnotation [of p _ q] fst_createResource [of lib p _ q]
        fst_updateContainerImages [of p _ _ _ q]
      cong: sum.case_cong prod.case_cong if_cong)

lemma Execute_present:
  assumes "imageAnnotation item = Some (VString n)" and "decodesTo lib item r"
  shows "fst (Execute lib p \<lparr>Item = item\<rparr>) =
           outputOf lib (setContainers r (fst (updateLoop p n (containersOf r))))"
  using assms(2) unfolding decodesTo_def
  by (auto simp: Execute_fst getImageAnnotation_string [OF assms(1)] createResource_def
                 UnstructuredContent_def updateContainerImages_typed)

lemma Execute_unsupported:
  assumes "imageAnnotation item = Some (VString n)"
    and "KindOf lib item \<noteq> ''Deployment''" and "KindOf lib item \<noteq> ''StatefulSet''"
  shows "fst (Execute lib p \<lparr>Item = item\<rparr>) = Inl (UnsupportedKind (KindOf lib item))"
  using assms(2,3)
  by (simp add: Execute_fst getImageAnnotation_string [OF assms(1)] createResource_def)

section \<open>The repository's tests of Deployment and StatefulSet\<close>

text \<open>
  The three cases of \<^verbatim>\<open>TestRestorePluginV2_Execute\<close> that the code passes, run on the model:
  a Deployment whose tag is kept, a StatefulSet whose replacement brings its tag, and a
  Deployment without the annotation.
\<close>

lemma test_Deployment_preserves_tag:
  "fst (Execute hostLib p0
        \<lparr>Item = mkItem ''Deployment''
                  [(''eth-eks.velero/container-image'', VString ''new-registry/app'')]
                  [(''app'', ''old-registry/app:v1.2.3'')]\<rparr>)
     = Inr \<lparr>UpdatedItem = mkItem ''Deployment''
                  [(''eth-eks.velero/container-image'', VString ''new-registry/app'')]
                  [(''app'', ''new-registry/app:v1.2.3'')]\<rparr>"
  by (simp add: eval_defs)

lemma test_StatefulSet_new_tag:
  "fst (Execute hostLib p0
        \<lparr>Item = mkItem ''StatefulSet''
                  [(''eth-eks.velero/container-image'', VString ''new-registry/app:v2.0.0'')]
                  [(''app'', ''old-registry/app:v1.0.0'')]\<rparr>)
     = Inr \<lparr>UpdatedItem = mkItem ''StatefulSet''
                  [(''eth-eks.velero/container-image'', VString ''new-registry/app:v2.0.0'')]
                  [(''app'', ''new-registry/app:v2.0.0'')]\<rparr>"
  by (simp add: eval_defs)

lemma test_no_annotation:
  "fst (Execute hostLib p0
        \<lparr>Item = \<lparr>Object =
           [(''kind'', VString ''Deployment''),
            (''metadata'', VMap [(''name'', VString ''test-deployment''),
                                 (''namespace'', VString ''test-namespace'')]),
            (''spec'', VMap [(''template'', VMap [(''spec'', VMap
               [(''containers'',
                 VSlice [VMap [(''name'', VString ''app''),
                               (''image'', VString ''original/image:v1.0.0'')]])])])])]\<rparr>\<rparr>)
     = Inr \<lparr>UpdatedItem = \<lparr>Object =
           [(''kind'', VString ''Deployment''),
            (''metadata'', VMap [(''name'', VString ''test-deployment''),
                                 (''namespace'', VString ''test-namespace'')]),
            (''spec'', VMap [(''template'', VMap [(''spec'', VMap
               [(''containers'',
                 VSlice [VMap [(''name'', VString ''app''),
                               (''image'', VString ''original/image:v1.0.0'')]])])])])]\<rparr>\<rparr>"
  by (simp add: eval_defs)

section \<open>The workload kinds\<close>

text \<open>
  C1 (the code departs from the claim). The claim has \<^verbatim>\<open>Execute\<close> succeed on a CronJob that
  carries the annotation and has \<^verbatim>\<open>cronjobs\<close> in the selector of \<^verbatim>\<open>AppliesTo\<close>, as the
  repository's tests expect. On the CronJob of the test, \<^verbatim>\<open>createResource\<close> has no case for
  the kind and \<^verbatim>\<open>Execute\<close> returns the error \<^verbatim>\<open>unsupported kind CronJob\<close>; the selector
  lists \<^verbatim>\<open>statefulsets\<close> and \<^verbatim>\<open>deployments\<close> only.
\<close>

theorem Execute_CronJob_unsupported:
  "fst (Execute hostLib p0 \<lparr>Item = cronJobItem\<rparr>) = Inl (UnsupportedKind ''CronJob'') \<and>
   AppliesTo =
     Inr \<lparr>IncludedNamespaces = [], ExcludedNamespaces = [],
          IncludedResources = [''statefulsets'', ''deployments''],
          ExcludedResources = [], LabelSelector = []\<rparr> \<and>
   ''cronjobs'' \<notin> set [''statefulsets'', ''deployments'']"
  by (simp add: eval_defs cronJobItem_def AppliesTo_def)

section \<open>Repository and tag\<close>

text \<open>
  C4 (as stated, refuted). The claim has repository, colon and extracted tag give the image
  back for every image with at least one colon. An image with a registry port has two
  colons: the extracted tag is the piece between them, and what follows the second colon
  is lost.
\<close>

theorem getImageTag_registry_port:
  "getImageTag ''localhost:5000/app:v1'' = ''5000/app'' \<and>
   hd (Split ''localhost:5000/app:v1'' (CHR '':'')) = ''localhost'' \<and>
   hd (Split ''localhost:5000/app:v1'' (CHR '':'')) @ '':'' @ getImageTag ''localhost:5000/app:v1''
     \<noteq> ''localhost:5000/app:v1''"
  by (simp add: getImageTag_def)

text \<open>
  C4 (amended). For every image string with exactly one colon, splitting on the colon gives
  two pieces, the repository and the tag that \<^verbatim>\<open>getImageTag\<close> returns, and the repository,
  a colon and that tag give the image string back.
\<close>

theorem getImageTag_reconstructs:
  assumes "count_list img (CHR '':'') = 1"
  shows "Split img (CHR '':'') = [hd (Split img (CHR '':'')), getImageTag img] \<and>
         hd (Split img (CHR '':'')) @ '':'' @ getImageTag img = img"
proof -
  from Split_one_colon [OF assms] obtain a b
    where "img = a @ CHR '':'' # b" and "Split img (CHR '':'') = [a, b]" by blast
  then show ?thesis by (simp add: getImageTag_def)
qed

theorem getImageTag_reconstructs_witness:
  "count_list ''old-registry/app:v1.2.3'' (CHR '':'') = 1 \<and>
   Split ''old-registry/app:v1.2.3'' (CHR '':'') = [''old-registry/app'', ''v1.2.3''] \<and>
   ''old-registry/app'' @ '':'' @ getImageTag ''old-registry/app:v1.2.3''
     = ''old-registry/app:v1.2.3''"
  using getImageTag_reconstructs [of "''old-registry/app:v1.2.3''"]
  by (simp add: getImageTag_def)

section \<open>The plugin keeps no state\<close>

text \<open>
  C8. The result of \<^verbatim>\<open>Execute\<close> (the updated item or the error) is a function of the input
  item: it is the same whatever the plugin has logged before, and in particular an earlier
  invocation, on any input, does not change the result of a later one.
\<close>

theorem Execute_stateless:
  "fst (Execute lib p input) = fst (Execute lib q input) \<and>
   fst (Execute lib (snd (Execute lib p earlier)) input) = fst (Execute lib p input)"
  using Execute_plugin by blast

section \<open>Items the plugin leaves alone or refuses\<close>

text \<open>
  C5 (as stated, refuted). The claim has \<^verbatim>\<open>Execute\<close> return the input item and no error
  whenever the annotation is absent. An item with no metadata has no annotation, and there
  the type assertion on \<^verbatim>\<open>"metadata"\<close> in \<^verbatim>\<open>getImageAnnotation\<close> panics.
\<close>

theorem Execute_without_metadata:
  "imageAnnotation \<lparr>Object = [(''kind'', VString ''Deployment'')]\<rparr> = None \<and>
   Execute hostLib p0 \<lparr>Item = \<lparr>Object = [(''kind'', VString ''Deployment'')]\<rparr>\<rparr>
     = (Inl Panic, p0)"
  by (simp add: eval_defs imageAnnotation_def)

text \<open>
  C5 (amended). For every input item whose metadata is an object and on which the
  annotation is absent (no annotations, annotations that are no object, or no such key
  in them), \<^verbatim>\<open>Execute\<close> returns the input item itself, unchanged, and no error; it logs
  nothing.
\<close>

theorem Execute_no_annotation:
  assumes "hasMetadata item" and "imageAnnotation item = None"
  shows "Execute lib p \<lparr>Item = item\<rparr> = (Inr \<lparr>UpdatedItem = item\<rparr>, p)"
  using getImageAnnotation_absent [OF assms, of p]
  by (simp add: Execute_def NewRestoreItemActionExecuteOutput_def)

theorem Execute_no_annotation_witness:
  "hasMetadata (mkItem ''Deployment'' [] [(''app'', ''original/image:v1.0.0'')]) \<and>
   imageAnnotation (mkItem ''Deployment'' [] [(''app'', ''original/image:v1.0.0'')]) = None \<and>
   Execute hostLib p0 \<lparr>Item = mkItem ''Deployment'' [] [(''app'', ''original/image:v1.0.0'')]\<rparr>
     = (Inr \<lparr>UpdatedItem = mkItem ''Deployment'' [] [(''app'', ''original/image:v1.0.0'')]\<rparr>, p0)"
proof -
  have h: "hasMetadata (mkItem ''Deployment'' [] [(''app'', ''original/image:v1.0.0'')])"
    by (simp add: hasMetadata_def mkItem_def)
  have a: "imageAnnotation (mkItem ''Deployment'' [] [(''app'', ''original/image:v1.0.0'')]) = None"
    by (simp add: imageAnnotation_def mkItem_def)
  show ?thesis using h a Execute_no_annotation [OF h a, of hostLib p0] by simp
qed

text \<open>
  C10. When the annotation is present with a string value and the kind of the item is
  neither Deployment nor StatefulSet, \<^verbatim>\<open>Execute\<close> returns the error
  \<^verbatim>\<open>unsupported kind <kind>\<close> and no output. When the annotation is present with a value that
  is no string, it is treated as absent: \<^verbatim>\<open>Execute\<close> returns the item unchanged.
\<close>

theorem Execute_unsupported_kind:
  "(imageAnnotation item = Some (VString newImage) \<and>
    KindOf lib item \<noteq> ''Deployment'' \<and> KindOf lib item \<noteq> ''StatefulSet'' \<longrightarrow>
      fst (Execute lib p \<lparr>Item = item\<rparr>) = Inl (UnsupportedKind (KindOf lib item))) \<and>
   (imageAnnotation item = Some v \<and> (\<forall>s. v \<noteq> VString s) \<longrightarrow>
      fst (Execute lib p \<lparr>Item = item\<rparr>) = Inr \<lparr>UpdatedItem = item\<rparr>)"
proof (intro conjI impI)
  assume "imageAnnotation item = Some (VString newImage) \<and>
    KindOf lib item \<noteq> ''Deployment'' \<and> KindOf lib item \<noteq> ''StatefulSet''"
  then show "fst (Execute lib p \<lparr>Item = item\<rparr>) = Inl (UnsupportedKind (KindOf lib item))"
    by (simp add: Execute_unsupported)
next
  assume a: "imageAnnotation item = Some v \<and> (\<forall>s. v \<noteq> VString s)"
  then have "getImageAnnotation p item =
       (Inr ([], False), Warning p ''Image annotation value is not a string'')"
    by (simp add: getImageAnnotation_not_string)
  then show "fst (Execute lib p \<lparr>Item = item\<rparr>) = Inr \<lparr>UpdatedItem = item\<rparr>"
    by (simp add: Execute_fst NewRestoreItemActionExecuteOutput_def)
qed

theorem Execute_unsupported_kind_witness:
  "imageAnnotation cronJobItem = Some (VString ''new-registry/app'') \<and>
   KindOf hostLib cronJobItem = ''CronJob'' \<and>
   fst (Execute hostLib p0 \<lparr>Item = cronJobItem\<rparr>) = Inl (UnsupportedKind ''CronJob'') \<and>
   imageAnnotation (mkItem ''Deployment'' [(''eth-eks.velero/container-image'', VInt 7)]
                      [(''app'', ''old-registry/app:v1.2.3'')]) = Some (VInt 7) \<and>
   fst (Execute hostLib p0
         \<lparr>Item = mkItem ''Deployment'' [(''eth-eks.velero/container-image'', VInt 7)]
                   [(''app'', ''old-registry/app:v1.2.3'')]\<rparr>)
     = Inr \<lparr>UpdatedItem = mkItem ''Deployment'' [(''eth-eks.velero/container-image'', VInt 7)]
                   [(''app'', ''old-registry/app:v1.2.3'')]\<rparr>"
proof -
  have a: "imageAnnotation cronJobItem = Some (VString ''new-registry/app'')"
    by (simp add: imageAnnotation_def cronJobItem_def)
  have k: "KindOf hostLib cronJobItem = ''CronJob''"
    by (simp add: hostLib_def stringField_def cronJobItem_def)
  have b: "imageAnnotation (mkItem ''Deployment'' [(''eth-eks.velero/container-image'', VInt 7)]
                      [(''app'', ''old-registry/app:v1.2.3'')]) = Some (VInt 7)"
    by (simp add: imageAnnotation_def mkItem_def)
  show ?thesis
    using a k b
      Execute_unsupported_kind
        [where item = cronJobItem and newImage = "''new-registry/app''" and lib = hostLib
           and p = p0]
      Execute_unsupported_kind
        [where item = "mkItem ''Deployment'' [(''eth-eks.velero/container-image'', VInt 7)]
               [(''app'', ''old-registry/app:v1.2.3'')]" and v = "VInt 7" and lib = hostLib
           and p = p0]
    by simp
qed

section \<open>Facts about the typed objects and the converter instance\<close>

lemma setContainers_frame:
  "goType (setContainers r cs) = goType r \<and>
   Other (workload (setContainers r cs)) = Other (workload r) \<and>
   containersOf (setContainers r cs) = cs"
  by (cases r) (simp_all add: containersOf_def)


lemma hostLib_decodes:
  "kind = ''Deployment'' \<or> kind = ''StatefulSet'' \<Longrightarrow>
   decodesTo hostLib (mkItem kind anns cs)
     ((if kind = ''Deployment'' then Deployment else StatefulSet)
        \<lparr>Containers = map (\<lambda>(n, i). \<lparr>Name = n, Image = i, ContainerRest = ()\<rparr>) cs,
         Other = [(''annotations'', VMap anns)]\<rparr>)"
  by (auto simp: decodesTo_def hostLib_def hostFromUnstructured_def decodeWorkload_def
       field_def stringField_def mkItem_def o_def case_prod_beta)

lemma hostLib_annotation: "imageAnnotation (mkItem kind anns cs) = map_of anns ''eth-eks.velero/container-image''"
  by (simp add: imageAnnotation_def mkItem_def)



section \<open>Rewriting the images\<close>

text \<open>
  In the statements below an item carries the annotation with the string \<open>newImage\<close>
  (\<open>imageAnnotation item = Some (VString newImage)\<close>) and is a StatefulSet or a Deployment
  that the converter decodes to the typed object \<open>r\<close> (\<open>decodesTo lib item r\<close>);
  \<open>outputOf lib r'\<close> is what \<^verbatim>\<open>Execute\<close> returns for the typed object \<open>r'\<close> it hands to
  \<^verbatim>\<open>createOutput\<close>.
\<close>

text \<open>
  C6 (as stated, refuted). The claim has every container take the annotation's value as it
  is when that value contains a colon. The value \<^verbatim>\<open>new-registry/app:\<close> contains a colon, its
  tag is empty, and the tag of the container is appended after a second colon.
\<close>

theorem Execute_empty_tag_appends:
  "CHR '':'' \<in> set ''new-registry/app:'' \<and>
   fst (Execute hostLib p0
        \<lparr>Item = mkItem ''Deployment''
                  [(''eth-eks.velero/container-image'', VString ''new-registry/app:'')]
                  [(''app'', ''old-registry/app:v1.2.3'')]\<rparr>)
     = Inr \<lparr>UpdatedItem = mkItem ''Deployment''
                  [(''eth-eks.velero/container-image'', VString ''new-registry/app:'')]
                  [(''app'', ''new-registry/app::v1.2.3'')]\<rparr>"
  by (simp add: eval_defs)

text \<open>
  C6 (amended). For every StatefulSet or Deployment with the annotation present, if the
  replacement string has a tag, that is, the piece after its first colon is not empty,
  then the image of every container in the result is the annotation's value, whatever the
  original images were.
\<close>

theorem Execute_replacement_tag_wins:
  assumes "imageAnnotation item = Some (VString newImage)"
    and "decodesTo lib item r"
    and "getImageTag newImage \<noteq> []"
  shows "fst (Execute lib p \<lparr>Item = item\<rparr>) =
           outputOf lib (setContainers r (map (\<lambda>c. c\<lparr>Image := newImage\<rparr>) (containersOf r)))"
  using assms by (simp add: Execute_present updateLoop_tagged)

theorem Execute_replacement_tag_wins_witness:
  "imageAnnotation (mkItem ''StatefulSet''
       [(''eth-eks.velero/container-image'', VString ''new-registry/app:v2.0.0'')]
       [(''app'', ''old-registry/app:v1.0.0''), (''proxy'', ''old-registry/proxy:v7'')])
     = Some (VString ''new-registry/app:v2.0.0'') \<and>
   getImageTag ''new-registry/app:v2.0.0'' = ''v2.0.0'' \<and>
   fst (Execute hostLib p0
        \<lparr>Item = mkItem ''StatefulSet''
                  [(''eth-eks.velero/container-image'', VString ''new-registry/app:v2.0.0'')]
                  [(''app'', ''old-registry/app:v1.0.0''), (''proxy'', ''old-registry/proxy:v7'')]\<rparr>)
     = Inr \<lparr>UpdatedItem = mkItem ''StatefulSet''
                  [(''eth-eks.velero/container-image'', VString ''new-registry/app:v2.0.0'')]
                  [(''app'', ''new-registry/app:v2.0.0''), (''proxy'', ''new-registry/app:v2.0.0'')]\<rparr>"
proof -
  let ?anns = "[(''eth-eks.velero/container-image'', VString ''new-registry/app:v2.0.0'')]"
  let ?cs = "[(''app'', ''old-registry/app:v1.0.0''), (''proxy'', ''old-registry/proxy:v7'')]"
  have a: "imageAnnotation (mkItem ''StatefulSet'' ?anns ?cs) = Some (VString ''new-registry/app:v2.0.0'')"
    by (simp add: hostLib_annotation)
  have t: "getImageTag ''new-registry/app:v2.0.0'' = ''v2.0.0''"
    by (simp add: getImageTag_def)
  then have t': "getImageTag ''new-registry/app:v2.0.0'' \<noteq> []" by simp
  have d: "decodesTo hostLib (mkItem ''StatefulSet'' ?anns ?cs)
       (StatefulSet \<lparr>Containers = map (\<lambda>(n, i). \<lparr>Name = n, Image = i, ContainerRest = ()\<rparr>) ?cs,
         Other = [(''annotations'', VMap ?anns)]\<rparr>)"
    using hostLib_decodes [of "''StatefulSet''" ?anns ?cs] by simp
  show ?thesis
    using a t Execute_replacement_tag_wins [OF a d t', of p0]
    by (simp add: outputOf_def createOutput_def hostLib_def hostToUnstructured_def
          containersOf_def encodeContainer_def mkItem_def NewRestoreItemActionExecuteOutput_def)
qed

text \<open>
  C2 (the code departs from the claim). The claim has every container with a tag keep its
  own tag when the replacement has none. The loop assigns to its parameter \<^verbatim>\<open>newImage\<close>:
  once the first tagged container has appended its tag, the replacement has a tag, and
  the containers after it get the first one's. Here the second container had the tag
  \<^verbatim>\<open>v2\<close> and ends with \<^verbatim>\<open>new-registry/app:v1\<close>, not \<^verbatim>\<open>new-registry/app:v2\<close>.
\<close>

theorem Execute_second_container_tag:
  "fst (Execute hostLib p0
        \<lparr>Item = mkItem ''Deployment''
                  [(''eth-eks.velero/container-image'', VString ''new-registry/app'')]
                  [(''app'', ''old-registry/app:v1''), (''proxy'', ''old-registry/proxy:v2'')]\<rparr>)
     = Inr \<lparr>UpdatedItem = mkItem ''Deployment''
                  [(''eth-eks.velero/container-image'', VString ''new-registry/app'')]
                  [(''app'', ''new-registry/app:v1''), (''proxy'', ''new-registry/app:v1'')]\<rparr> \<and>
   getImageTag ''new-registry/app'' = [] \<and>
   getImageTag ''old-registry/proxy:v2'' = ''v2'' \<and>
   ''new-registry/app:v1'' \<noteq> ''new-registry/app'' @ '':'' @ ''v2''"
  by (simp add: eval_defs)

text \<open>
  C3 (as stated, refuted). The claim has all containers carry the same image after
  \<^verbatim>\<open>Execute\<close>. A container without a tag followed by one with a tag end with different
  images: the second keeps its tag.
\<close>

theorem Execute_images_differ:
  "fst (Execute hostLib p0
        \<lparr>Item = mkItem ''Deployment''
                  [(''eth-eks.velero/container-image'', VString ''new-registry/app'')]
                  [(''app'', ''old-registry/app''), (''proxy'', ''old-registry/proxy:v2'')]\<rparr>)
     = Inr \<lparr>UpdatedItem = mkItem ''Deployment''
                  [(''eth-eks.velero/container-image'', VString ''new-registry/app'')]
                  [(''app'', ''new-registry/app''), (''proxy'', ''new-registry/app:v2'')]\<rparr> \<and>
   ''new-registry/app'' \<noteq> ''new-registry/app:v2''"
  by (simp add: eval_defs)

text \<open>
  C3 (amended). For every StatefulSet or Deployment with the annotation present, \<^verbatim>\<open>Execute\<close>
  rewrites every container of the pod template, none is selected or skipped: there are as
  many containers as before and the image of each begins with the replacement string. All
  of them carry the same image, the replacement string itself, when the replacement has a
  tag or when no original image has one.
\<close>

theorem Execute_rewrites_every_container:
  assumes "imageAnnotation item = Some (VString newImage)"
    and "decodesTo lib item r"
  shows "\<exists>cs. fst (Execute lib p \<lparr>Item = item\<rparr>) = outputOf lib (setContainers r cs) \<and>
              length cs = length (containersOf r) \<and>
              (\<forall>c \<in> set cs. \<exists>s. Image c = newImage @ s) \<and>
              (getImageTag newImage \<noteq> [] \<or>
               (\<forall>c \<in> set (containersOf r). getImageTag (Image c) = []) \<longrightarrow>
                 (\<forall>c \<in> set cs. Image c = newImage))"
proof (intro exI conjI impI)
  let ?cs = "fst (updateLoop p newImage (containersOf r))"
  show "fst (Execute lib p \<lparr>Item = item\<rparr>) = outputOf lib (setContainers r ?cs)"
    using assms by (rule Execute_present)
  show "length ?cs = length (containersOf r)" by (rule updateLoop_length)
  show "\<forall>c \<in> set ?cs. \<exists>s. Image c = newImage @ s" by (blast dest: updateLoop_prefix)
  assume "getImageTag newImage \<noteq> [] \<or>
          (\<forall>c \<in> set (containersOf r). getImageTag (Image c) = [])"
  then have "?cs = map (\<lambda>c. c\<lparr>Image := newImage\<rparr>) (containersOf r)"
    using updateLoop_tagged updateLoop_untagged by blast
  then show "\<forall>c \<in> set ?cs. Image c = newImage" by simp
qed

theorem Execute_rewrites_every_container_witness:
  "imageAnnotation (mkItem ''Deployment''
       [(''eth-eks.velero/container-image'', VString ''new-registry/app'')]
       [(''app'', ''old-registry/app''), (''proxy'', ''old-registry/proxy'')])
     = Some (VString ''new-registry/app'') \<and>
   decodesTo hostLib (mkItem ''Deployment''
       [(''eth-eks.velero/container-image'', VString ''new-registry/app'')]
       [(''app'', ''old-registry/app''), (''proxy'', ''old-registry/proxy'')])
     (Deployment
        \<lparr>Containers = [\<lparr>Name = ''app'', Image = ''old-registry/app'', ContainerRest = ()\<rparr>,
                       \<lparr>Name = ''proxy'', Image = ''old-registry/proxy'', ContainerRest = ()\<rparr>],
         Other = [(''annotations'', VMap
                     [(''eth-eks.velero/container-image'', VString ''new-registry/app'')])]\<rparr>) \<and>
   getImageTag ''old-registry/app'' = [] \<and> getImageTag ''old-registry/proxy'' = [] \<and>
   (\<exists>cs. fst (Execute hostLib p0
             \<lparr>Item = mkItem ''Deployment''
                [(''eth-eks.velero/container-image'', VString ''new-registry/app'')]
                [(''app'', ''old-registry/app''), (''proxy'', ''old-registry/proxy'')]\<rparr>)
           = outputOf hostLib (setContainers
               (Deployment
                  \<lparr>Containers =
                     [\<lparr>Name = ''app'', Image = ''old-registry/app'', ContainerRest = ()\<rparr>,
                      \<lparr>Name = ''proxy'', Image = ''old-registry/proxy'', ContainerRest = ()\<rparr>],
                   Other = [(''annotations'', VMap
                     [(''eth-eks.velero/container-image'', VString ''new-registry/app'')])]\<rparr>)
               cs) \<and>
         length cs = 2 \<and>
         list_all (\<lambda>c. Image c = ''new-registry/app'') cs)"
proof -
  let ?anns = "[(''eth-eks.velero/container-image'', VString ''new-registry/app'')]"
  let ?cs = "[(''app'', ''old-registry/app''), (''proxy'', ''old-registry/proxy'')]"
  have a: "imageAnnotation (mkItem ''Deployment'' ?anns ?cs) = Some (VString ''new-registry/app'')"
    by (simp add: hostLib_annotation)
  have d: "decodesTo hostLib (mkItem ''Deployment'' ?anns ?cs)
     (Deployment
        \<lparr>Containers = [\<lparr>Name = ''app'', Image = ''old-registry/app'', ContainerRest = ()\<rparr>,
                       \<lparr>Name = ''proxy'', Image = ''old-registry/proxy'', ContainerRest = ()\<rparr>],
         Other = [(''annotations'', VMap ?anns)]\<rparr>)"
    using hostLib_decodes [of "''Deployment''" ?anns ?cs] by simp
  have t: "getImageTag ''old-registry/app'' = [] \<and> getImageTag ''old-registry/proxy'' = []"
    by (simp add: getImageTag_def)
  let ?r = "Deployment
        \<lparr>Containers = [\<lparr>Name = ''app'', Image = ''old-registry/app'', ContainerRest = ()\<rparr>,
                       \<lparr>Name = ''proxy'', Image = ''old-registry/proxy'', ContainerRest = ()\<rparr>],
         Other = [(''annotations'', VMap ?anns)]\<rparr>"
  from Execute_rewrites_every_container [OF a d, of p0] t
  obtain cs where "fst (Execute hostLib p0 \<lparr>Item = mkItem ''Deployment'' ?anns ?cs\<rparr>)
        = outputOf hostLib (setContainers ?r cs)"
    and "length cs = 2" and "\<forall>c \<in> set cs. Image c = ''new-registry/app''"
    by (auto simp: containersOf_def)
  then have "\<exists>cs. fst (Execute hostLib p0 \<lparr>Item = mkItem ''Deployment'' ?anns ?cs\<rparr>)
        = outputOf hostLib (setContainers ?r cs) \<and> length cs = 2 \<and>
        list_all (\<lambda>c. Image c = ''new-registry/app'') cs"
    unfolding list_all_iff by blast
  with a d t show ?thesis by blast
qed

text \<open>
  C7 (as stated, refuted). The claim has every field of the resource other than the images
  unchanged in the output. The output is what the host's converter encodes from the typed
  object, and the typed object holds what the converter decoded from the input: a field of
  the input that the typed object has no place for is not in the output. Here the item
  carries a field \<^verbatim>\<open>extra\<close> beside \<^verbatim>\<open>kind\<close>, \<^verbatim>\<open>metadata\<close> and \<^verbatim>\<open>spec\<close>; the output has none.
\<close>

theorem Execute_drops_unknown_field:
  "map_of (Object \<lparr>Object =
        [(''kind'', VString ''Deployment''),
         (''metadata'', VMap [(''annotations'', VMap
            [(''eth-eks.velero/container-image'', VString ''new-registry/app'')])]),
         (''spec'', VMap [(''template'', VMap [(''spec'', VMap
            [(''containers'',
              VSlice [VMap [(''name'', VString ''app''),
                            (''image'', VString ''old-registry/app:v1.2.3'')]])])])]),
         (''extra'', VString ''kept'')]\<rparr>) ''extra'' = Some (VString ''kept'') \<and>
   fst (Execute hostLib p0 \<lparr>Item = \<lparr>Object =
        [(''kind'', VString ''Deployment''),
         (''metadata'', VMap [(''annotations'', VMap
            [(''eth-eks.velero/container-image'', VString ''new-registry/app'')])]),
         (''spec'', VMap [(''template'', VMap [(''spec'', VMap
            [(''containers'',
              VSlice [VMap [(''name'', VString ''app''),
                            (''image'', VString ''old-registry/app:v1.2.3'')]])])])]),
         (''extra'', VString ''kept'')]\<rparr>\<rparr>)
     = Inr \<lparr>UpdatedItem = \<lparr>Object =
        [(''kind'', VString ''Deployment''),
         (''metadata'', VMap [(''annotations'', VMap
            [(''eth-eks.velero/container-image'', VString ''new-registry/app'')])]),
         (''spec'', VMap [(''template'', VMap [(''spec'', VMap
            [(''containers'',
              VSlice [VMap [(''name'', VString ''app''),
                            (''image'', VString ''new-registry/app:v1.2.3'')]])])])])]\<rparr>\<rparr> \<and>
   map_of [(''kind'', VString ''Deployment''),
         (''metadata'', VMap [(''annotations'', VMap
            [(''eth-eks.velero/container-image'', VString ''new-registry/app'')])]),
         (''spec'', VMap [(''template'', VMap [(''spec'', VMap
            [(''containers'',
              VSlice [VMap [(''name'', VString ''app''),
                            (''image'', VString ''new-registry/app:v1.2.3'')]])])])])]
     ''extra'' = None"
  by (simp add: eval_defs)

text \<open>
  C7 (amended). For every StatefulSet or Deployment with the annotation present that the
  host's converter decodes, the output of \<^verbatim>\<open>Execute\<close> is the converter's encoding of the
  decoded typed object with nothing but the \<^verbatim>\<open>Image\<close> field of the containers of the pod
  template written: the same type, the same fields outside the containers, and the same
  containers in the same order, each with its name and its other fields. What decoding
  and encoding keep of the unstructured item is the converter's.
\<close>

theorem Execute_frame_typed:
  assumes "imageAnnotation item = Some (VString newImage)"
    and "decodesTo lib item r"
  shows "\<exists>imgs r'.
           length imgs = length (containersOf r) \<and>
           r' = setContainers r (map2 (\<lambda>c i. c\<lparr>Image := i\<rparr>) (containersOf r) imgs) \<and>
           fst (Execute lib p \<lparr>Item = item\<rparr>) = outputOf lib r' \<and>
           goType r' = goType r \<and>
           Other (workload r') = Other (workload r) \<and>
           map Name (containersOf r') = map Name (containersOf r) \<and>
           map ContainerRest (containersOf r') = map ContainerRest (containersOf r)"
proof (intro exI conjI)
  let ?cs = "fst (updateLoop p newImage (containersOf r))"
  let ?imgs = "map Image ?cs"
  let ?r' = "setContainers r (map2 (\<lambda>c i. c\<lparr>Image := i\<rparr>) (containersOf r) ?imgs)"
  have cs: "map2 (\<lambda>c i. c\<lparr>Image := i\<rparr>) (containersOf r) ?imgs = ?cs"
    by (rule updateLoop_only_images [symmetric])
  show "length ?imgs = length (containersOf r)" by (simp add: updateLoop_length)
  show "?r' = ?r'" ..
  show "fst (Execute lib p \<lparr>Item = item\<rparr>) = outputOf lib ?r'"
    unfolding cs using assms by (rule Execute_present)
  show "goType ?r' = goType r" and "Other (workload ?r') = Other (workload r)"
    by (simp_all add: setContainers_frame)
  show "map Name (containersOf ?r') = map Name (containersOf r)"
    unfolding cs by (simp add: setContainers_frame updateLoop_Name)
  show "map ContainerRest (containersOf ?r') = map ContainerRest (containersOf r)"
    unfolding cs by (simp add: setContainers_frame updateLoop_ContainerRest)
qed

theorem Execute_frame_typed_witness:
  "imageAnnotation (mkItem ''Deployment''
       [(''eth-eks.velero/container-image'', VString ''new-registry/app'')]
       [(''app'', ''old-registry/app''), (''proxy'', ''old-registry/proxy:v2'')])
     = Some (VString ''new-registry/app'') \<and>
   decodesTo hostLib (mkItem ''Deployment''
       [(''eth-eks.velero/container-image'', VString ''new-registry/app'')]
       [(''app'', ''old-registry/app''), (''proxy'', ''old-registry/proxy:v2'')])
     (Deployment
        \<lparr>Containers = [\<lparr>Name = ''app'', Image = ''old-registry/app'', ContainerRest = ()\<rparr>,
                       \<lparr>Name = ''proxy'', Image = ''old-registry/proxy:v2'', ContainerRest = ()\<rparr>],
         Other = [(''annotations'', VMap
                     [(''eth-eks.velero/container-image'', VString ''new-registry/app'')])]\<rparr>) \<and>
   (\<exists>imgs r'.
      length imgs = 2 \<and>
      r' = Deployment
             \<lparr>Containers = [\<lparr>Name = ''app'', Image = imgs ! 0, ContainerRest = ()\<rparr>,
                            \<lparr>Name = ''proxy'', Image = imgs ! 1, ContainerRest = ()\<rparr>],
              Other = [(''annotations'', VMap
                     [(''eth-eks.velero/container-image'', VString ''new-registry/app'')])]\<rparr> \<and>
      fst (Execute hostLib p0
             \<lparr>Item = mkItem ''Deployment''
                [(''eth-eks.velero/container-image'', VString ''new-registry/app'')]
                [(''app'', ''old-registry/app''), (''proxy'', ''old-registry/proxy:v2'')]\<rparr>)
        = outputOf hostLib r') \<and>
   fst (Execute hostLib p0
          \<lparr>Item = mkItem ''Deployment''
             [(''eth-eks.velero/container-image'', VString ''new-registry/app'')]
             [(''app'', ''old-registry/app''), (''proxy'', ''old-registry/proxy:v2'')]\<rparr>)
     = Inr \<lparr>UpdatedItem = mkItem ''Deployment''
             [(''eth-eks.velero/container-image'', VString ''new-registry/app'')]
             [(''app'', ''new-registry/app''), (''proxy'', ''new-registry/app:v2'')]\<rparr>"
proof -
  let ?anns = "[(''eth-eks.velero/container-image'', VString ''new-registry/app'')]"
  let ?cs = "[(''app'', ''old-registry/app''), (''proxy'', ''old-registry/proxy:v2'')]"
  let ?r = "Deployment
        \<lparr>Containers = [\<lparr>Name = ''app'', Image = ''old-registry/app'', ContainerRest = ()\<rparr>,
                       \<lparr>Name = ''proxy'', Image = ''old-registry/proxy:v2'', ContainerRest = ()\<rparr>],
         Other = [(''annotations'', VMap ?anns)]\<rparr>"
  have a: "imageAnnotation (mkItem ''Deployment'' ?anns ?cs) = Some (VString ''new-registry/app'')"
    by (simp add: hostLib_annotation)
  have d: "decodesTo hostLib (mkItem ''Deployment'' ?anns ?cs) ?r"
    using hostLib_decodes [of "''Deployment''" ?anns ?cs] by simp
  from Execute_frame_typed [OF a d, of p0]
  obtain imgs r' where l: "length imgs = length (containersOf ?r)"
    and r': "r' = setContainers ?r (map2 (\<lambda>c i. c\<lparr>Image := i\<rparr>) (containersOf ?r) imgs)"
    and e: "fst (Execute hostLib p0 \<lparr>Item = mkItem ''Deployment'' ?anns ?cs\<rparr>) = outputOf hostLib r'"
    by blast
  from l obtain i0 i1 where imgs: "imgs = [i0, i1]"
    by (cases imgs; cases "tl imgs") (auto simp: containersOf_def)
  have "\<exists>imgs r'. length imgs = 2 \<and>
      r' = Deployment
             \<lparr>Containers = [\<lparr>Name = ''app'', Image = imgs ! 0, ContainerRest = ()\<rparr>,
                            \<lparr>Name = ''proxy'', Image = imgs ! 1, ContainerRest = ()\<rparr>],
              Other = [(''annotations'', VMap ?anns)]\<rparr> \<and>
      fst (Execute hostLib p0 \<lparr>Item = mkItem ''Deployment'' ?anns ?cs\<rparr>) = outputOf hostLib r'"
    using r' e imgs by (intro exI [of _ imgs] exI [of _ r']) (simp add: containersOf_def)
  moreover have "fst (Execute hostLib p0 \<lparr>Item = mkItem ''Deployment'' ?anns ?cs\<rparr>)
     = Inr \<lparr>UpdatedItem = mkItem ''Deployment'' ?anns
             [(''app'', ''new-registry/app''), (''proxy'', ''new-registry/app:v2'')]\<rparr>"
    by (simp add: eval_defs)
  ultimately show ?thesis using a d by blast
qed




end
